theory Spec2Isabelle
  imports Complex_Main
begin

section \<open>The Electron renderer process: \<open>CRTTerminalApp\<close>\<close>

text \<open>
  The class \<open>CRTTerminalApp\<close> of \<open>cool-retro-term-electron/src/renderer.ts\<close> wires an
  XTerm.js terminal, the CRT renderer objects (\<open>TerminalText\<close>, \<open>TerminalFrame\<close>,
  \<open>XTermConnector\<close> of the package \<open>cool-retro-term-renderer\<close>), a Three.js
  \<open>WebGLRenderer\<close> and the preload script's \<open>terminalAPI\<close> together.  Every one
  of these collaborators is an object of another package; the class only calls them.  The
  model therefore records each call on a collaborator as an \<open>event\<close>, in the order in
  which the method bodies make them, and keeps the fields of the class and the two pieces of
  host state its control flow reads (the queue of requested animation frames and whether the
  canvas still has a parent node) in a record.

  Not recorded: constructing plain objects (\<open>new THREE.Scene\<close>, the camera), the scene
  graph wiring (\<open>scene.add\<close>, \<open>mesh.position.z\<close>) and the styling calls
  \<open>setPixelRatio\<close> and \<open>setClearColor\<close>.  Grid dimensions are JavaScript numbers that
  \<open>getGridSize\<close> produces from a viewport size and glyph metrics; they are modelled as
  \<open>int\<close>.  \<open>performance.now()\<close> is a parameter of type \<open>real\<close>.  The
  \<open>DOMContentLoaded\<close> handler at the end of the file, which constructs the application,
  awaits \<open>init\<close> and dispatches one \<open>resize\<close> event, is not part of the class; its
  effect on the class is a call of \<open>handleResize\<close>.
\<close>

subsection \<open>Events, cleanup closures and the state\<close>

datatype cleanup =
    RemoveDataListener
  | DisposeOnData
  | RemoveExitListener
  | RemoveWindowResizeListener

datatype event =
    RendererSetSize int int
  | AppendCanvas
  | NewTerminalText int int
  | NewTerminalFrame int int
  | XTermOpen
  | XTermResize int int
  | NewConnector
  | ConnectorSetupMouseSelection
  | RegisterGridSizeListener
  | ConnectorSync
  | AddResizeListener
  | UpdateTime real
  | RenderStaticPass
  | RequestAnimationFrame nat
  | RenderScene
  | TerminalTextUpdateSize int int
  | TerminalFrameUpdateSize int int
  | TerminalApiInit int int
  | TerminalApiOnData
  | XTermOnData
  | TerminalApiOnExit
  | TerminalApiOnWindowResize
  | XTermFocus
  | TerminalApiResize int int
  | XTermWrite string
  | XTermWriteExitNotice int
  | ConsoleLogExit int
  | TerminalApiWrite string
  | CancelAnimationFrame nat
  | RemoveResizeListener
  | RunCleanup cleanup
  | ConnectorDispose
  | TerminalTextDispose
  | TerminalFrameDispose
  | RendererDispose
  | RemoveCanvas
  | XTermDispose

datatype connector_ref = XTermConnector

record app =
  connector :: "connector_ref option"
  animationFrameId :: "nat option"
  cleanupFunctions :: "cleanup list"
  pendingFrames :: "nat list"
  nextFrameId :: nat
  canvasAttached :: bool
  trace :: "event list"

definition emit :: "event \<Rightarrow> app \<Rightarrow> app" where
  "emit e s = s\<lparr>trace := trace s @ [e]\<rparr>"

text \<open>The events an operation appends to the trace of the state it starts from.\<close>

definition emitted :: "(app \<Rightarrow> app) \<Rightarrow> app \<Rightarrow> event list" where
  "emitted f s = drop (length (trace s)) (trace (f s))"

subsection \<open>The host's animation-frame queue\<close>

text \<open>
  \<open>requestAnimationFrame(this.animate)\<close> queues one call of \<open>animate\<close> and returns a
  fresh handle; \<open>cancelAnimationFrame(id)\<close> removes the request with that handle.
\<close>

definition requestAnimationFrame :: "app \<Rightarrow> nat \<times> app" where
  "requestAnimationFrame s =
     (nextFrameId s,
      emit (RequestAnimationFrame (nextFrameId s))
        (s\<lparr>pendingFrames := pendingFrames s @ [nextFrameId s],
           nextFrameId := Suc (nextFrameId s)\<rparr>))"

definition cancelAnimationFrame :: "nat \<Rightarrow> app \<Rightarrow> app" where
  "cancelAnimationFrame i s =
     emit (CancelAnimationFrame i) (s\<lparr>pendingFrames := removeAll i (pendingFrames s)\<rparr>)"

subsection \<open>\<open>animate\<close> (renderer.ts, lines 157 to 169)\<close>

definition animate :: "real \<Rightarrow> app \<Rightarrow> app" where
  "animate now s =
     (let s1 = emit (UpdateTime now) s;
          s2 = emit RenderStaticPass s1;
          (i, s3) = requestAnimationFrame s2;
          s4 = s3\<lparr>animationFrameId := Some i\<rparr>
      in emit RenderScene s4)"

text \<open>The host runs the oldest queued frame request, if there is one.\<close>

definition frame :: "real \<Rightarrow> app \<Rightarrow> app" where
  "frame now s =
     (case pendingFrames s of
        [] \<Rightarrow> s
      | i # rest \<Rightarrow> animate now (s\<lparr>pendingFrames := rest\<rparr>))"

subsection \<open>The grid-size listener (renderer.ts, lines 119 to 124)\<close>

definition onGridSizeChange_callback :: "int \<Rightarrow> int \<Rightarrow> app \<Rightarrow> app" where
  "onGridSizeChange_callback cols rows s =
     (if cols > 0 \<and> rows > 0 \<and> connector s \<noteq> None
      then emit ConnectorSync (emit (XTermResize cols rows) s)
      else s)"

subsection \<open>The constructor (renderer.ts, lines 58 to 134)\<close>

text \<open>
  \<open>w\<close> and \<open>h\<close> are \<open>window.innerWidth\<close> and \<open>window.innerHeight\<close>, \<open>g\<close> is what
  \<open>terminalText.getGridSize()\<close> returns, \<open>now\<close> is the clock read by the first
  \<open>animate\<close>.  The page has requested no animation frame before; handles start at 1.
\<close>

definition constructor :: "int \<Rightarrow> int \<Rightarrow> int \<times> int \<Rightarrow> real \<Rightarrow> app" where
  "constructor w h g now =
     (let s0 = \<lparr>connector = None, animationFrameId = None, cleanupFunctions = [],
                 pendingFrames = [], nextFrameId = 1, canvasAttached = False, trace = []\<rparr>;
          s1 = emit (RendererSetSize w h) s0;
          s2 = (emit AppendCanvas s1)\<lparr>canvasAttached := True\<rparr>;
          s3 = emit (NewTerminalText w h) s2;
          s4 = emit (NewTerminalFrame w h) s3;
          s5 = emit XTermOpen s4;
          s6 = (if fst g > 0 \<and> snd g > 0 then emit (XTermResize (fst g) (snd g)) s5 else s5);
          s7 = (emit NewConnector s6)\<lparr>connector := Some XTermConnector\<rparr>;
          s8 = emit ConnectorSetupMouseSelection s7;
          s9 = emit RegisterGridSizeListener s8;
          s10 = emit ConnectorSync s9;
          s11 = emit AddResizeListener s10
      in animate now s11)"

subsection \<open>\<open>handleResize\<close> (renderer.ts, lines 139 to 152)\<close>

text \<open>
  \<open>terminalText.updateSize\<close> belongs to the renderer package.  Whether it calls the
  registered grid-size listener, and with which dimensions, is the parameter \<open>fired\<close>;
  \<open>g\<close> is what \<open>getGridSize()\<close> returns afterwards.
\<close>

definition handleResize :: "int \<Rightarrow> int \<Rightarrow> (int \<times> int) option \<Rightarrow> int \<times> int \<Rightarrow> app \<Rightarrow> app" where
  "handleResize w h fired g s =
     (let s1 = emit (RendererSetSize w h) s;
          s2 = emit (TerminalTextUpdateSize w h) s1;
          s3 = (case fired of
                  None \<Rightarrow> s2
                | Some (c, r) \<Rightarrow> onGridSizeChange_callback c r s2);
          s4 = emit (TerminalFrameUpdateSize w h) s3
      in if connector s4 \<noteq> None
         then (if fst g > 0 \<and> snd g > 0
               then emit ConnectorSync (emit (XTermResize (fst g) (snd g)) s4)
               else s4)
         else s4)"

subsection \<open>\<open>init\<close> (renderer.ts, lines 174 to 221)\<close>

text \<open>
  \<open>init\<close> is asynchronous: it runs up to \<open>await window.terminalAPI.init(cols, rows)\<close>,
  and the rest of its body runs when that promise is settled.  \<open>g\<close> is what
  \<open>terminalText.getGridSize()\<close> returns on line 176.
\<close>

definition init_begin :: "int \<times> int \<Rightarrow> app \<Rightarrow> app" where
  "init_begin g s =
     (let cols = (if fst g > 0 then fst g else 80);
          rows = (if snd g > 0 then snd g else 24);
          s1 = emit (XTermResize cols rows) s
      in emit (TerminalApiInit cols rows) s1)"

definition init_resume :: "app \<Rightarrow> app" where
  "init_resume s =
     (let s1 = (emit TerminalApiOnData s)
                 \<lparr>cleanupFunctions := cleanupFunctions s @ [RemoveDataListener]\<rparr>;
          s2 = (emit XTermOnData s1)
                 \<lparr>cleanupFunctions := cleanupFunctions s1 @ [DisposeOnData]\<rparr>;
          s3 = (emit TerminalApiOnExit s2)
                 \<lparr>cleanupFunctions := cleanupFunctions s2 @ [RemoveExitListener]\<rparr>;
          s4 = (emit TerminalApiOnWindowResize s3)
                 \<lparr>cleanupFunctions := cleanupFunctions s3 @ [RemoveWindowResizeListener]\<rparr>
      in emit XTermFocus s4)"

definition init :: "int \<times> int \<Rightarrow> app \<Rightarrow> app" where
  "init g s = init_resume (init_begin g s)"

text \<open>The four listeners that \<open>init\<close> registers (lines 187 to 216).\<close>

definition onData_callback :: "string \<Rightarrow> app \<Rightarrow> app" where
  "onData_callback d s = emit (XTermWrite d) s"

definition xtermOnData_callback :: "string \<Rightarrow> app \<Rightarrow> app" where
  "xtermOnData_callback d s = emit (TerminalApiWrite d) s"

definition onExit_callback :: "int \<Rightarrow> app \<Rightarrow> app" where
  "onExit_callback code s = emit (XTermWriteExitNotice code) (emit (ConsoleLogExit code) s)"

definition onWindowResize_callback ::
    "int \<Rightarrow> int \<Rightarrow> (int \<times> int) option \<Rightarrow> int \<times> int \<Rightarrow> app \<Rightarrow> app" where
  "onWindowResize_callback w h fired g s =
     (let s1 = handleResize w h fired g s
      in if fst g > 0 \<and> snd g > 0 then emit (TerminalApiResize (fst g) (snd g)) s1 else s1)"

subsection \<open>\<open>dispose\<close> (renderer.ts, lines 247 to 281)\<close>

fun run_cleanups :: "cleanup list \<Rightarrow> app \<Rightarrow> app" where
  "run_cleanups [] s = s"
| "run_cleanups (c # cs) s = run_cleanups cs (emit (RunCleanup c) s)"

definition dispose :: "app \<Rightarrow> app" where
  "dispose s =
     (let s1 = (case animationFrameId s of
                  None \<Rightarrow> s
                | Some i \<Rightarrow> (cancelAnimationFrame i s)\<lparr>animationFrameId := None\<rparr>);
          s2 = emit RemoveResizeListener s1;
          s3 = (run_cleanups (cleanupFunctions s2) s2)\<lparr>cleanupFunctions := []\<rparr>;
          s4 = (case connector s3 of
                  None \<Rightarrow> s3
                | Some c \<Rightarrow> (emit ConnectorDispose s3)\<lparr>connector := None\<rparr>);
          s5 = emit TerminalTextDispose s4;
          s6 = emit TerminalFrameDispose s5;
          s7 = emit RendererDispose s6;
          s8 = (if canvasAttached s7
                then (emit RemoveCanvas s7)\<lparr>canvasAttached := False\<rparr>
                else s7)
      in emit XTermDispose s8)"

subsection \<open>Runs of the application\<close>

text \<open>
  What can happen to a constructed application: the host runs a queued animation frame,
  the renderer package reports a grid-size change, the window is resized, \<open>init\<close> starts
  or resumes, one of the listeners of \<open>init\<close> is called, or \<open>dispose\<close> is called.
\<close>

datatype op =
    Frame real
  | GridSizeChange int int
  | WindowResize int int "(int \<times> int) option" "int \<times> int"
  | InitBegin "int \<times> int"
  | InitResume
  | PtyData string
  | KeyInput string
  | PtyExit int
  | PtyWindowResize int int "(int \<times> int) option" "int \<times> int"
  | Dispose

fun step :: "op \<Rightarrow> app \<Rightarrow> app" where
  "step (Frame now) s = frame now s"
| "step (GridSizeChange c r) s = onGridSizeChange_callback c r s"
| "step (WindowResize w h fired g) s = handleResize w h fired g s"
| "step (InitBegin g) s = init_begin g s"
| "step InitResume s = init_resume s"
| "step (PtyData d) s = onData_callback d s"
| "step (KeyInput d) s = xtermOnData_callback d s"
| "step (PtyExit code) s = onExit_callback code s"
| "step (PtyWindowResize w h fired g) s = onWindowResize_callback w h fired g s"
| "step Dispose s = dispose s"

fun run :: "op list \<Rightarrow> app \<Rightarrow> app" where
  "run [] s = s"
| "run (x # xs) s = run xs (step x s)"



subsection \<open>The collaborators' \<open>dispose()\<close>\<close>







section \<open>The text rasterizer of the renderer package\<close>

text \<open>
  The class behind \<open>terminalText\<close> belongs to the package \<open>cool-retro-term-renderer\<close>;
  \<open>renderer.ts\<close> only calls it.  The definitions of this section follow the
  specification's description of it (data model and section 4.1).
\<close>

text \<open>
  Modelled from the spec: the Cell of the data model (the grid classes are missing), "one
  grid position; attributes = character (or empty), foreground color (RGB), background
  color (RGB), style flags (bold, underline, inverse, dim)".
\<close>

type_synonym rgb = "nat \<times> nat \<times> nat"

record cell =
  character :: "char option"
  foreground :: rgb
  background :: rgb
  bold :: bool
  underline :: bool
  inverse :: bool
  dim :: bool

definition blank_cell :: cell where
  "blank_cell = \<lparr>character = None, foreground = (255, 255, 255), background = (0, 0, 0),
                  bold = False, underline = False, inverse = False, dim = False\<rparr>"

text \<open>
  Modelled from the spec: the state of the Text Rasterizer (its class is missing).  The
  grid size, the glyph cell's pixel metrics, the grid of cells, the size of the backing
  texture, and the calls made so far to the listener registered with
  \<open>onGridSizeChange\<close>.
\<close>

record rasterizer =
  gridCols :: int
  gridRows :: int
  cellWidth :: int
  cellHeight :: int
  cells :: "cell list list"
  textureWidth :: int
  textureHeight :: int
  notifications :: "(int \<times> int) list"

text \<open>
  Modelled from the spec: \<open>getGridSize()\<close> of the missing rasterizer class, "returns the
  current (cols, rows)".
\<close>

definition getGridSize :: "rasterizer \<Rightarrow> int \<times> int" where
  "getGridSize s = (gridCols s, gridRows s)"

text \<open>
  Modelled from the spec: the reallocation of the missing rasterizer class, "reallocates
  backing texture and glyph layout to the new cell count", the texture dimensions being
  "consistent with cols x rows x glyph-cell-size".
\<close>

definition reallocate :: "int \<Rightarrow> int \<Rightarrow> rasterizer \<Rightarrow> rasterizer" where
  "reallocate c r s =
     s\<lparr>gridCols := c, gridRows := r,
       cells := replicate (nat r) (replicate (nat c) blank_cell),
       textureWidth := c * cellWidth s,
       textureHeight := r * cellHeight s\<rparr>"

text \<open>
  Modelled from the spec: \<open>updateGridSize(cols, rows)\<close> of the missing rasterizer class,
  "reallocates backing texture and glyph layout to the new cell count; fails (no-op) if
  either dimension is <= 0".  The boolean says whether the call succeeded; nothing is
  raised.
\<close>

definition updateGridSize :: "int \<Rightarrow> int \<Rightarrow> rasterizer \<Rightarrow> bool \<times> rasterizer" where
  "updateGridSize c r s =
     (if c \<le> 0 \<or> r \<le> 0 then (False, s) else (True, reallocate c r s))"

text \<open>
  Modelled from the spec: the GridSize of the missing rasterizer class, "computed from
  viewport pixel dimensions and fixed glyph cell pixel metrics (width, height)": the number
  of whole glyph cells that fit.
\<close>

definition computeGridSize :: "int \<Rightarrow> int \<Rightarrow> rasterizer \<Rightarrow> int \<times> int" where
  "computeGridSize w h s = (w div cellWidth s, h div cellHeight s)"

text \<open>
  Modelled from the spec: the size recomputation of the missing rasterizer class
  (\<open>updateSize(width, height)\<close>, as \<open>handleResize\<close> calls it).  The listener is
  "invoked whenever a size recomputation changes cols or rows (not on every resize event,
  only on actual grid-dimension change)".
\<close>

definition updateSize :: "int \<Rightarrow> int \<Rightarrow> rasterizer \<Rightarrow> rasterizer" where
  "updateSize w h s =
     (let new = computeGridSize w h s
      in if new = getGridSize s then s
         else (reallocate (fst new) (snd new) s)\<lparr>notifications := notifications s @ [new]\<rparr>)"

text \<open>
  Modelled from the spec: construction of the missing rasterizer class for a viewport of
  \<open>w\<close> by \<open>h\<close> pixels and glyph cells of \<open>cw\<close> by \<open>ch\<close> pixels.
\<close>

definition newRasterizer :: "int \<Rightarrow> int \<Rightarrow> int \<Rightarrow> int \<Rightarrow> rasterizer" where
  "newRasterizer w h cw ch =
     reallocate (w div cw) (h div ch)
       \<lparr>gridCols = 0, gridRows = 0, cellWidth = cw, cellHeight = ch, cells = [],
        textureWidth = 0, textureHeight = 0, notifications = []\<rparr>"

section \<open>The operations in closed form\<close>


lemma animate_eq:
  "animate now s =
     s\<lparr>animationFrameId := Some (nextFrameId s),
       pendingFrames := pendingFrames s @ [nextFrameId s],
       nextFrameId := Suc (nextFrameId s),
       trace := trace s @ [UpdateTime now, RenderStaticPass,
                           RequestAnimationFrame (nextFrameId s), RenderScene]\<rparr>"
  by (simp add: animate_def requestAnimationFrame_def Let_def emit_def)


lemma callback_eq:
  "onGridSizeChange_callback c r s =
     s\<lparr>trace := trace s @ (if c > 0 \<and> r > 0 \<and> connector s \<noteq> None
                            then [XTermResize c r, ConnectorSync] else [])\<rparr>"
  by (simp add: onGridSizeChange_callback_def emit_def)

lemma handleResize_eq:
  "handleResize w h fired g s =
     s\<lparr>trace := trace s @ [RendererSetSize w h, TerminalTextUpdateSize w h]
        @ (case fired of None \<Rightarrow> []
           | Some (c, r) \<Rightarrow> if c > 0 \<and> r > 0 \<and> connector s \<noteq> None
                             then [XTermResize c r, ConnectorSync] else [])
        @ [TerminalFrameUpdateSize w h]
        @ (if connector s \<noteq> None \<and> fst g > 0 \<and> snd g > 0
           then [XTermResize (fst g) (snd g), ConnectorSync] else [])\<rparr>"
  by (simp add: handleResize_def callback_eq emit_def Let_def split: option.split prod.split)


lemma init_begin_eq:
  "init_begin g s =
     s\<lparr>trace := trace s @
        [XTermResize (if fst g > 0 then fst g else 80) (if snd g > 0 then snd g else 24),
         TerminalApiInit (if fst g > 0 then fst g else 80) (if snd g > 0 then snd g else 24)]\<rparr>"
  by (simp add: init_begin_def emit_def Let_def)

lemma init_resume_eq:
  "init_resume s =
     s\<lparr>cleanupFunctions := cleanupFunctions s @
          [RemoveDataListener, DisposeOnData, RemoveExitListener, RemoveWindowResizeListener],
       trace := trace s @
          [TerminalApiOnData, XTermOnData, TerminalApiOnExit, TerminalApiOnWindowResize,
           XTermFocus]\<rparr>"
  by (simp add: init_resume_def emit_def Let_def)

lemma onWindowResize_callback_eq:
  "onWindowResize_callback w h fired g s =
     (handleResize w h fired g s)
       \<lparr>trace := trace (handleResize w h fired g s) @
          (if fst g > 0 \<and> snd g > 0 then [TerminalApiResize (fst g) (snd g)] else [])\<rparr>"
  by (simp add: onWindowResize_callback_def emit_def Let_def)

lemma constructor_eq:
  "constructor w h g now =
     \<lparr>connector = Some XTermConnector, animationFrameId = Some 1, cleanupFunctions = [],
      pendingFrames = [1], nextFrameId = 2, canvasAttached = True,
      trace = [RendererSetSize w h, AppendCanvas, NewTerminalText w h, NewTerminalFrame w h,
               XTermOpen]
        @ (if fst g > 0 \<and> snd g > 0 then [XTermResize (fst g) (snd g)] else [])
        @ [NewConnector, ConnectorSetupMouseSelection, RegisterGridSizeListener,
           ConnectorSync, AddResizeListener,
           UpdateTime now, RenderStaticPass, RequestAnimationFrame 1, RenderScene]\<rparr>"
  by (simp add: constructor_def animate_eq emit_def Let_def)

lemma frame_eq:
  "frame now s =
     (case pendingFrames s of
        [] \<Rightarrow> s
      | i # rest \<Rightarrow>
          s\<lparr>animationFrameId := Some (nextFrameId s),
            pendingFrames := rest @ [nextFrameId s],
            nextFrameId := Suc (nextFrameId s),
            trace := trace s @ [UpdateTime now, RenderStaticPass,
                                RequestAnimationFrame (nextFrameId s), RenderScene]\<rparr>)"
  by (simp add: frame_def animate_eq split: list.split)

section \<open>Invariants of a run\<close>




lemma connector_step: "x \<noteq> Dispose \<Longrightarrow> connector (step x s) = connector s"
  by (cases x)
     (auto simp: frame_def animate_eq callback_eq handleResize_eq init_begin_eq
        init_resume_eq onData_callback_def xtermOnData_callback_def onExit_callback_def
        onWindowResize_callback_eq emit_def
        split: list.splits)

lemma connector_run: "Dispose \<notin> set xs \<Longrightarrow> connector (run xs s) = connector s"
  by (induction xs arbitrary: s) (auto simp: connector_step)






section \<open>Disposing twice\<close>








section \<open>The rasterizer's size recomputation\<close>

lemma updateSize_size:
  "getGridSize (updateSize w h s) = computeGridSize w h s"
  by (simp add: updateSize_def Let_def getGridSize_def reallocate_def)

lemma updateSize_metrics:
  "cellWidth (updateSize w h s) = cellWidth s" "cellHeight (updateSize w h s) = cellHeight s"
  by (simp_all add: updateSize_def Let_def reallocate_def)

section \<open>The claims\<close>

text \<open>
  C1.  Every run of \<open>animate\<close>, the body of the render loop, makes exactly four calls, in
  this order: it advances the frame time (\<open>updateTime\<close>), renders the rasterizer's static
  pass, requests the next animation frame, and only then renders the main scene.  The next
  tick is thus scheduled before the current frame's main-scene render.  The same holds for
  every tick the host runs from the frame queue; with an empty queue there is no tick.
\<close>

theorem animate_order:
  "emitted (animate now) s =
     [UpdateTime now, RenderStaticPass, RequestAnimationFrame (nextFrameId s), RenderScene] \<and>
   emitted (frame now) s =
     (if pendingFrames s = [] then []
      else [UpdateTime now, RenderStaticPass, RequestAnimationFrame (nextFrameId s),
            RenderScene])"
  by (simp add: emitted_def animate_eq frame_eq split: list.split)

text \<open>
  C2.  While the application holds its connector, that is in every run in which
  \<open>dispose\<close> has not been called, a grid-size change reported with \<open>cols > 0\<close> and
  \<open>rows > 0\<close> makes the listener first resize the XTerm buffer to \<open>(cols, rows)\<close> and
  then call \<open>sync()\<close> on the connector, in that order, and nothing else.
\<close>

theorem gridSizeChange_resize_then_sync:
  "Dispose \<notin> set ops \<Longrightarrow> 0 < cols \<Longrightarrow> 0 < rows \<Longrightarrow>
     emitted (onGridSizeChange_callback cols rows) (run ops (constructor w h g now)) =
       [XTermResize cols rows, ConnectorSync]"
  by (simp add: emitted_def callback_eq connector_run constructor_eq)

text \<open>An instance: after one frame and one window resize, a change to 132 by 43.\<close>

theorem gridSizeChange_resize_then_sync_witness:
  "Dispose \<notin> set [Frame 16, WindowResize 1024 768 None (128, 48)] \<and>
   (0::int) < 132 \<and> (0::int) < 43 \<and>
   emitted (onGridSizeChange_callback 132 43)
     (run [Frame 16, WindowResize 1024 768 None (128, 48)] (constructor 800 600 (100, 37) 0)) =
     [XTermResize 132 43, ConnectorSync]"
  using gridSizeChange_resize_then_sync
          [of "[Frame 16, WindowResize 1024 768 None (128, 48)]" 132 43 800 600 "(100, 37)" 0]
  by simp



text \<open>
  C10 (as amended).  \<open>init\<close> resizes XTerm and initializes the PTY with the same pair of
  dimensions, and both are strictly positive: a positive dimension of the rasterizer's grid
  size is kept, a non-positive number of columns is replaced by 80, and a non-positive
  number of rows by 24, each on its own.
\<close>

theorem init_size_fallback:
  "emitted (init_begin (c, r)) s =
     [XTermResize (if 0 < c then c else 80) (if 0 < r then r else 24),
      TerminalApiInit (if 0 < c then c else 80) (if 0 < r then r else 24)] \<and>
   0 < (if 0 < c then c else 80) \<and> 0 < (if 0 < r then r else 24)"
  by (simp add: emitted_def init_begin_eq)

text \<open>An instance: with both dimensions degenerate the size is 80 by 24.\<close>

theorem init_size_fallback_witness:
  "emitted (init_begin (0, 0)) (constructor 800 600 (0, 0) 0) =
     [XTermResize 80 24, TerminalApiInit 80 24]"
  using init_size_fallback [of 0 0 "constructor 800 600 (0, 0) 0"] by simp

text \<open>
  C10 as stated fails when only one dimension is degenerate: for the grid size
  \<open>(0, 30)\<close> the PTY is initialized with 80 by 30, not with the fallback 80 by 24.
\<close>

theorem init_one_degenerate_dimension:
  "emitted (init_begin (0, 30)) (constructor 800 600 (0, 30) 0) =
     [XTermResize 80 30, TerminalApiInit 80 30]"
  by (simp add: emitted_def init_begin_eq)

text \<open>
  C7.  For the rasterizer as the specification describes it: \<open>updateGridSize(cols, rows)\<close>
  with \<open>cols \<le> 0\<close> or \<open>rows \<le> 0\<close> reports failure as its result, raises nothing, and
  leaves the whole state, and with it the grid size, unchanged.
\<close>

theorem updateGridSize_degenerate_noop:
  "cols \<le> 0 \<or> rows \<le> 0 \<Longrightarrow>
     updateGridSize cols rows s = (False, s) \<and>
     getGridSize (snd (updateGridSize cols rows s)) = getGridSize s"
  by (auto simp: updateGridSize_def)

text \<open>An instance: the scenario \<open>updateGridSize(0, 24)\<close> on an 80 by 24 grid.\<close>

theorem updateGridSize_degenerate_noop_witness:
  "(0::int) \<le> 0 \<and>
   updateGridSize 0 24 (newRasterizer 640 384 8 16) = (False, newRasterizer 640 384 8 16) \<and>
   getGridSize (snd (updateGridSize 0 24 (newRasterizer 640 384 8 16))) = (80, 24)"
  using updateGridSize_degenerate_noop [of 0 24 "newRasterizer 640 384 8 16"]
  by (simp add: newRasterizer_def reallocate_def getGridSize_def)

text \<open>
  C8.  For the rasterizer as the specification describes it: when two consecutive size
  recomputations yield the same \<open>(cols, rows)\<close>, the second one calls the
  \<open>onGridSizeChange\<close> listener not at all, so the two together call it at most once.
\<close>

theorem same_size_notifies_once:
  "computeGridSize w2 h2 s = computeGridSize w1 h1 s \<Longrightarrow>
     notifications (updateSize w2 h2 (updateSize w1 h1 s)) = notifications (updateSize w1 h1 s) \<and>
     length (notifications (updateSize w2 h2 (updateSize w1 h1 s))) \<le> Suc (length (notifications s))"
proof -
  assume same: "computeGridSize w2 h2 s = computeGridSize w1 h1 s"
  have "computeGridSize w2 h2 (updateSize w1 h1 s) = computeGridSize w2 h2 s"
    by (simp add: computeGridSize_def updateSize_metrics)
  with same have "computeGridSize w2 h2 (updateSize w1 h1 s) = getGridSize (updateSize w1 h1 s)"
    by (simp add: updateSize_size)
  then have "updateSize w2 h2 (updateSize w1 h1 s) = updateSize w1 h1 s"
    by (simp add: updateSize_def [of w2 h2])
  moreover have "length (notifications (updateSize w1 h1 s)) \<le> Suc (length (notifications s))"
    by (simp add: updateSize_def Let_def)
  ultimately show ?thesis by simp
qed

text \<open>
  An instance: an 80 by 24 grid of 8 by 16 pixel cells, resized to 1024 by 768 and then to
  1029 by 775 pixels, both 128 by 48 cells; the listener is called once.
\<close>

theorem same_size_notifies_once_witness:
  "computeGridSize 1029 775 (newRasterizer 640 384 8 16) =
     computeGridSize 1024 768 (newRasterizer 640 384 8 16) \<and>
   notifications (updateSize 1029 775 (updateSize 1024 768 (newRasterizer 640 384 8 16))) =
     [(128, 48)]"
  using same_size_notifies_once [of 1029 775 "newRasterizer 640 384 8 16" 1024 768]
  by (simp add: computeGridSize_def newRasterizer_def reallocate_def updateSize_def
        getGridSize_def Let_def)

end
